theory Spec2Isabelle
  imports Main "HOL-Library.Word" "HOL-Library.Multiset" "HOL-Library.Option_ord"
begin

section \<open>JavaScript values\<close>

text \<open>
  The data-access module (\<^verbatim>\<open>services/firebaseService.ts\<close>) is written in TypeScript.
  A JavaScript string is a sequence of UTF-16 code units, and \<^verbatim>\<open>.length\<close> counts code
  units, so a string is a list of 16-bit words. \<open>js\<close> embeds an ASCII literal.
  Error messages are ASCII constants of the module and stay Isabelle strings.
\<close>

type_synonym jsstring = "16 word list"

definition js :: "string \<Rightarrow> jsstring" where
  "js s = map of_char s"

text \<open>
  \<^verbatim>\<open>String.prototype.trim\<close> removes leading and trailing WhiteSpace and LineTerminator
  code points (ECMAScript, sections 12.2 and 12.3).
\<close>

definition isWhiteSpace :: "16 word \<Rightarrow> bool" where
  "isWhiteSpace c = (c \<in> set [0x9, 0xA, 0xB, 0xC, 0xD, 0x20, 0xA0, 0x1680,
      0x2000, 0x2001, 0x2002, 0x2003, 0x2004, 0x2005, 0x2006, 0x2007, 0x2008, 0x2009, 0x200A,
      0x2028, 0x2029, 0x202F, 0x205F, 0x3000, 0xFEFF])"

definition trim :: "jsstring \<Rightarrow> jsstring" where
  "trim s = rev (dropWhile isWhiteSpace (rev (dropWhile isWhiteSpace s)))"

text \<open>\<^verbatim>\<open>errors.join(', ')\<close>\<close>

fun join :: "string \<Rightarrow> string list \<Rightarrow> string" where
  "join sep [] = []"
| "join sep [x] = x"
| "join sep (x # y # ys) = x @ sep @ join sep (y # ys)"

text \<open>The only exception the module itself raises is \<^verbatim>\<open>new Error(message)\<close>.\<close>

datatype error = Error string | InvalidArgument

section \<open>Validation functions\<close>

text \<open>
  Each validation function takes a \<^verbatim>\<open>Partial<...>\<close> record, in which every field may be
  undefined, and reads only the fields given here as arguments (\<open>None\<close> is undefined).
  \<^verbatim>\<open>!x?.trim()\<close> holds when \<open>x\<close> is undefined or trims to the empty string.
\<close>

definition validateUserProfile :: "jsstring option \<Rightarrow> jsstring option \<Rightarrow> string list" where
  "validateUserProfile displayName bio =
    (let errors = [];
         errors = (case displayName of
             None \<Rightarrow> errors @ [''Display name is required'']
           | Some n \<Rightarrow>
               if trim n = [] then errors @ [''Display name is required'']
               else if length n < 2 then errors @ [''Display name must be at least 2 characters'']
               else if length n > 50 then errors @ [''Display name must be less than 50 characters'']
               else errors);
         errors = (case bio of
             None \<Rightarrow> errors
           | Some b \<Rightarrow>
               if b \<noteq> [] \<and> length b > 500 then errors @ [''Bio must be less than 500 characters'']
               else errors)
     in errors)"

definition validatePost :: "jsstring option \<Rightarrow> jsstring option \<Rightarrow> string list" where
  "validatePost title content =
    (let errors = [];
         errors = (case title of
             None \<Rightarrow> errors @ [''Title is required'']
           | Some t \<Rightarrow>
               if trim t = [] then errors @ [''Title is required'']
               else if length t < 3 then errors @ [''Title must be at least 3 characters'']
               else if length t > 100 then errors @ [''Title must be less than 100 characters'']
               else errors);
         errors = (case content of
             None \<Rightarrow> errors @ [''Content is required'']
           | Some c \<Rightarrow>
               if trim c = [] then errors @ [''Content is required'']
               else if length c < 10 then errors @ [''Content must be at least 10 characters'']
               else if length c > 2000 then errors @ [''Content must be less than 2000 characters'']
               else errors)
     in errors)"

definition validateComment :: "jsstring option \<Rightarrow> string list" where
  "validateComment content =
    (let errors = [];
         errors = (case content of
             None \<Rightarrow> errors @ [''Comment content is required'']
           | Some c \<Rightarrow>
               if trim c = [] then errors @ [''Comment content is required'']
               else if length c < 1 then errors @ [''Comment must have content'']
               else if length c > 500 then errors @ [''Comment must be less than 500 characters'']
               else errors)
     in errors)"

definition validateGroup :: "jsstring option \<Rightarrow> jsstring option \<Rightarrow> string list" where
  "validateGroup name description =
    (let errors = [];
         errors = (case name of
             None \<Rightarrow> errors @ [''Group name is required'']
           | Some n \<Rightarrow>
               if trim n = [] then errors @ [''Group name is required'']
               else if length n < 3 then errors @ [''Group name must be at least 3 characters'']
               else if length n > 50 then errors @ [''Group name must be less than 50 characters'']
               else errors);
         errors = (case description of
             None \<Rightarrow> errors @ [''Group description is required'']
           | Some d \<Rightarrow>
               if trim d = [] then errors @ [''Group description is required'']
               else if length d > 500
                 then errors @ [''Group description must be less than 500 characters'']
               else errors)
     in errors)"

text \<open>Dates are milliseconds since the epoch; a Date object, when present, is truthy.\<close>

definition validateEvent ::
  "jsstring option \<Rightarrow> jsstring option \<Rightarrow> int option \<Rightarrow> int option \<Rightarrow> string list" where
  "validateEvent title description startDate endDate =
    (let errors = [];
         errors = (case title of
             None \<Rightarrow> errors @ [''Event title is required'']
           | Some t \<Rightarrow>
               if trim t = [] then errors @ [''Event title is required'']
               else if length t < 3 then errors @ [''Event title must be at least 3 characters'']
               else if length t > 100 then errors @ [''Event title must be less than 100 characters'']
               else errors);
         errors = (case description of
             None \<Rightarrow> errors @ [''Event description is required'']
           | Some d \<Rightarrow>
               if trim d = [] then errors @ [''Event description is required'']
               else if length d > 1000
                 then errors @ [''Event description must be less than 1000 characters'']
               else errors);
         errors = (case (startDate, endDate) of
             (Some sd, Some ed) \<Rightarrow>
               if sd \<ge> ed then errors @ [''End date must be after start date''] else errors
           | _ \<Rightarrow> errors)
     in errors)"

section \<open>Documents and the store\<close>

text \<open>
  A document of the store is schema-less: any field may be missing, or hold null. The
  interfaces of the module are the schema, so a stored field is absent, null, or a value of
  its declared type. Dates and store timestamps are milliseconds since the epoch. Document identifiers are opaque and
  assigned by the store.
\<close>

datatype 'a field = Absent | Null | Val 'a

type_synonym docid = nat

text \<open>An optional property of a payload that is written only when it is not undefined.\<close>

definition opt :: "'a option \<Rightarrow> 'a field" where
  "opt x = (case x of None \<Rightarrow> Absent | Some v \<Rightarrow> Val v)"

text \<open>
  A JavaScript number is an IEEE 754 double. The numbers of this module are counters, and a
  counter is an integer: the store holds it as a 64-bit integer or as a double, and the
  model as an \<open>int\<close>. Every integer up to \<open>2 ^ 53 = 9007199254740992\<close> in magnitude is a
  double; a larger one is a double when it fits in 53 significant bits. \<open>excess a\<close> is
  the number of bits by which \<open>a\<close> exceeds 53 bits, and \<open>roundToDouble\<close> is the double
  nearest to an integer, ties going to the even significand: the number the client library
  delivers for a stored integer, and the result of \<^verbatim>\<open>+\<close> and \<^verbatim>\<open>-\<close> for an exact result.
  (An integer of magnitude \<open>2 ^ 1024\<close> or more has no finite double; the store holds none,
  and adding or subtracting 1 does not lead to one. A counter that is not an integer is
  outside the model.)
\<close>

function excess :: "int \<Rightarrow> nat" where
  "excess a = (if a < 9007199254740992 then 0 else Suc (excess (a div 2)))"
  by pat_completeness auto
termination
  by (relation "measure nat") auto

declare excess.simps [simp del]

definition roundToDouble :: "int \<Rightarrow> int" where
  "roundToDouble n =
    (if \<bar>n\<bar> \<le> 9007199254740992 then n
     else
       let a = \<bar>n\<bar>;
           e = excess a;
           q = a div 2 ^ e;
           r = a mod 2 ^ e;
           q = (if 2 * r > 2 ^ e \<or> (2 * r = 2 ^ e \<and> odd q) then q + 1 else q)
       in sgn n * (q * 2 ^ e))"

text \<open>\<^verbatim>\<open>data.count || 0\<close>, \<^verbatim>\<open>data.flag || d\<close> and \<^verbatim>\<open>data.at?.toDate() || new Date()\<close>.\<close>

definition num_or :: "int field \<Rightarrow> int \<Rightarrow> int" where
  "num_or f d =
    (case f of
       Val n \<Rightarrow> (let x = roundToDouble n in if x = 0 then d else x)
     | _ \<Rightarrow> d)"

definition bool_or :: "bool field \<Rightarrow> bool \<Rightarrow> bool" where
  "bool_or f d = (case f of Val b \<Rightarrow> if b then b else d | _ \<Rightarrow> d)"

definition date_or :: "int field \<Rightarrow> int \<Rightarrow> int" where
  "date_or f now = (case f of Val t \<Rightarrow> t | _ \<Rightarrow> now)"

datatype role = admin | moderator | member

datatype status = going | maybe | not_going

text \<open>
  The payloads of the create operations (the \<^verbatim>\<open>Omit<...>\<close> argument types). A field marked
  \<^verbatim>\<open>?\<close> in the interface is an option. Field names carry a prefix per record.
\<close>

record UserProfileData =
  pf_uid :: jsstring
  pf_displayName :: jsstring
  pf_email :: jsstring
  pf_bio :: "jsstring option"
  pf_profilePicture :: "jsstring option"

record PostData =
  pd_userId :: jsstring
  pd_userName :: jsstring
  pd_userAvatar :: "jsstring option"
  pd_title :: jsstring
  pd_content :: jsstring
  pd_imageData :: "jsstring option"

record CommentData =
  cd_postId :: docid
  cd_userId :: jsstring
  cd_userName :: jsstring
  cd_userAvatar :: "jsstring option"
  cd_content :: jsstring

record GroupData =
  gd_name :: jsstring
  gd_description :: jsstring
  gd_createdBy :: jsstring
  gd_creatorName :: jsstring
  gd_isPrivate :: bool
  gd_imageData :: "jsstring option"

record EventData =
  ed_title :: jsstring
  ed_description :: jsstring
  ed_createdBy :: jsstring
  ed_creatorName :: jsstring
  ed_groupId :: "docid option"
  ed_startDate :: int
  ed_endDate :: int
  ed_location :: "jsstring option"
  ed_maxParticipants :: "int option"
  ed_isPublic :: bool

text \<open>The documents of the collections.\<close>

record userProfile_doc =
  u_uid :: "jsstring field"
  u_displayName :: "jsstring field"
  u_email :: "jsstring field"
  u_bio :: "jsstring field"
  u_profilePicture :: "jsstring field"
  u_createdAt :: "int field"
  u_updatedAt :: "int field"

record post_doc =
  p_userId :: "jsstring field"
  p_userName :: "jsstring field"
  p_userAvatar :: "jsstring field"
  p_title :: "jsstring field"
  p_content :: "jsstring field"
  p_imageData :: "jsstring field"
  p_likesCount :: "int field"
  p_commentsCount :: "int field"
  p_createdAt :: "int field"
  p_updatedAt :: "int field"

record comment_doc =
  c_postId :: "docid field"
  c_userId :: "jsstring field"
  c_userName :: "jsstring field"
  c_userAvatar :: "jsstring field"
  c_content :: "jsstring field"
  c_createdAt :: "int field"
  c_updatedAt :: "int field"

record like_doc =
  l_postId :: "docid field"
  l_userId :: "jsstring field"
  l_userName :: "jsstring field"
  l_createdAt :: "int field"

record group_doc =
  g_name :: "jsstring field"
  g_description :: "jsstring field"
  g_createdBy :: "jsstring field"
  g_creatorName :: "jsstring field"
  g_memberCount :: "int field"
  g_isPrivate :: "bool field"
  g_imageData :: "jsstring field"
  g_createdAt :: "int field"
  g_updatedAt :: "int field"

record groupMember_doc =
  gm_groupId :: "docid field"
  gm_userId :: "jsstring field"
  gm_userName :: "jsstring field"
  gm_role :: "role field"
  gm_joinedAt :: "int field"

record event_doc =
  e_title :: "jsstring field"
  e_description :: "jsstring field"
  e_createdBy :: "jsstring field"
  e_creatorName :: "jsstring field"
  e_groupId :: "docid field"
  e_startDate :: "int field"
  e_endDate :: "int field"
  e_location :: "jsstring field"
  e_maxParticipants :: "int field"
  e_currentParticipants :: "int field"
  e_isPublic :: "bool field"
  e_createdAt :: "int field"
  e_updatedAt :: "int field"

record eventParticipant_doc =
  ep_eventId :: "docid field"
  ep_userId :: "jsstring field"
  ep_userName :: "jsstring field"
  ep_status :: "status field"
  ep_joinedAt :: "int field"

text \<open>
  The records the read operations return (\<^verbatim>\<open>Post\<close>, \<^verbatim>\<open>Comment\<close>, \<^verbatim>\<open>Event\<close>). A field
  copied from the document as it is (\<^verbatim>\<open>userId: data.userId\<close>) keeps whatever the document
  holds; a field read with a default has its declared type.
\<close>

record Post =
  post_id :: docid
  post_userId :: "jsstring field"
  post_userName :: "jsstring field"
  post_userAvatar :: "jsstring field"
  post_title :: "jsstring field"
  post_content :: "jsstring field"
  post_imageData :: "jsstring field"
  post_likesCount :: int
  post_commentsCount :: int
  post_createdAt :: int
  post_updatedAt :: int

record Comment =
  comment_id :: docid
  comment_postId :: "docid field"
  comment_userId :: "jsstring field"
  comment_userName :: "jsstring field"
  comment_userAvatar :: "jsstring field"
  comment_content :: "jsstring field"
  comment_createdAt :: int
  comment_updatedAt :: int

record Event =
  event_id :: docid
  event_title :: "jsstring field"
  event_description :: "jsstring field"
  event_createdBy :: "jsstring field"
  event_creatorName :: "jsstring field"
  event_groupId :: "docid field"
  event_startDate :: int
  event_endDate :: int
  event_location :: "jsstring field"
  event_maxParticipants :: "int field"
  event_currentParticipants :: int
  event_isPublic :: bool
  event_createdAt :: int
  event_updatedAt :: int

text \<open>
  A collection lists its documents in the order in which the store returns them to a query
  without \<^verbatim>\<open>orderBy\<close>.
  The store also keeps the sequence of write requests it has received, oldest first, its
  clock (the value of \<^verbatim>\<open>serverTimestamp()\<close>) and the next identifier \<^verbatim>\<open>addDoc\<close> assigns.
  Every request reaches the store and is answered: network failures are outside the model.
\<close>

type_synonym 'd collection = "(docid \<times> 'd) list"

datatype coll =
  UserProfiles | Posts | Comments | Likes | Groups | GroupMembers | Events | EventParticipants

datatype request = Added coll docid | Updated coll docid | Deleted coll docid

record store =
  userProfiles :: "userProfile_doc collection"
  posts :: "post_doc collection"
  comments :: "comment_doc collection"
  likes :: "like_doc collection"
  groups :: "group_doc collection"
  groupMembers :: "groupMember_doc collection"
  events :: "event_doc collection"
  eventParticipants :: "eventParticipant_doc collection"
  nextId :: docid
  serverTime :: int
  writes :: "request list"

text \<open>\<^verbatim>\<open>getDoc\<close> by reference (\<open>None\<close> when \<^verbatim>\<open>exists()\<close> is false), and what \<^verbatim>\<open>deleteDoc\<close> and
  \<^verbatim>\<open>updateDoc\<close> do to a collection. Deleting a document that does not exist succeeds and
  changes nothing. \<^verbatim>\<open>updateDoc\<close> is rejected by the store when the document does not exist;
  every call in this module is guarded by \<^verbatim>\<open>exists()\<close>, so that case does not arise here.\<close>

definition getDoc :: "'d collection \<Rightarrow> docid \<Rightarrow> 'd option" where
  "getDoc c i = map_of c i"

definition without :: "docid \<Rightarrow> 'd collection \<Rightarrow> 'd collection" where
  "without i c = filter (\<lambda>(j, d). j \<noteq> i) c"

definition patched :: "docid \<Rightarrow> ('d \<Rightarrow> 'd) \<Rightarrow> 'd collection \<Rightarrow> 'd collection" where
  "patched i f c = map (\<lambda>(j, d). if j = i then (j, f d) else (j, d)) c"

definition addDoc_userProfiles :: "userProfile_doc \<Rightarrow> store \<Rightarrow> docid \<times> store" where
  "addDoc_userProfiles d s = (nextId s,
     s\<lparr>userProfiles := userProfiles s @ [(nextId s, d)], nextId := Suc (nextId s),
       writes := writes s @ [Added UserProfiles (nextId s)]\<rparr>)"

definition addDoc_posts :: "post_doc \<Rightarrow> store \<Rightarrow> docid \<times> store" where
  "addDoc_posts d s = (nextId s,
     s\<lparr>posts := posts s @ [(nextId s, d)], nextId := Suc (nextId s),
       writes := writes s @ [Added Posts (nextId s)]\<rparr>)"

definition addDoc_comments :: "comment_doc \<Rightarrow> store \<Rightarrow> docid \<times> store" where
  "addDoc_comments d s = (nextId s,
     s\<lparr>comments := comments s @ [(nextId s, d)], nextId := Suc (nextId s),
       writes := writes s @ [Added Comments (nextId s)]\<rparr>)"

definition addDoc_likes :: "like_doc \<Rightarrow> store \<Rightarrow> docid \<times> store" where
  "addDoc_likes d s = (nextId s,
     s\<lparr>likes := likes s @ [(nextId s, d)], nextId := Suc (nextId s),
       writes := writes s @ [Added Likes (nextId s)]\<rparr>)"

definition addDoc_groups :: "group_doc \<Rightarrow> store \<Rightarrow> docid \<times> store" where
  "addDoc_groups d s = (nextId s,
     s\<lparr>groups := groups s @ [(nextId s, d)], nextId := Suc (nextId s),
       writes := writes s @ [Added Groups (nextId s)]\<rparr>)"

definition addDoc_groupMembers :: "groupMember_doc \<Rightarrow> store \<Rightarrow> docid \<times> store" where
  "addDoc_groupMembers d s = (nextId s,
     s\<lparr>groupMembers := groupMembers s @ [(nextId s, d)], nextId := Suc (nextId s),
       writes := writes s @ [Added GroupMembers (nextId s)]\<rparr>)"

definition addDoc_events :: "event_doc \<Rightarrow> store \<Rightarrow> docid \<times> store" where
  "addDoc_events d s = (nextId s,
     s\<lparr>events := events s @ [(nextId s, d)], nextId := Suc (nextId s),
       writes := writes s @ [Added Events (nextId s)]\<rparr>)"

definition addDoc_eventParticipants :: "eventParticipant_doc \<Rightarrow> store \<Rightarrow> docid \<times> store" where
  "addDoc_eventParticipants d s = (nextId s,
     s\<lparr>eventParticipants := eventParticipants s @ [(nextId s, d)], nextId := Suc (nextId s),
       writes := writes s @ [Added EventParticipants (nextId s)]\<rparr>)"

definition deleteDoc_posts :: "docid \<Rightarrow> store \<Rightarrow> store" where
  "deleteDoc_posts i s =
     s\<lparr>posts := without i (posts s), writes := writes s @ [Deleted Posts i]\<rparr>"

definition deleteDoc_comments :: "docid \<Rightarrow> store \<Rightarrow> store" where
  "deleteDoc_comments i s =
     s\<lparr>comments := without i (comments s), writes := writes s @ [Deleted Comments i]\<rparr>"

definition deleteDoc_likes :: "docid \<Rightarrow> store \<Rightarrow> store" where
  "deleteDoc_likes i s =
     s\<lparr>likes := without i (likes s), writes := writes s @ [Deleted Likes i]\<rparr>"

definition updateDoc_posts :: "docid \<Rightarrow> (post_doc \<Rightarrow> post_doc) \<Rightarrow> store \<Rightarrow> store" where
  "updateDoc_posts i f s =
     s\<lparr>posts := patched i f (posts s), writes := writes s @ [Updated Posts i]\<rparr>"

section \<open>Create, read and delete operations\<close>

text \<open>
  An operation takes the state of the store and returns its result with the new state. An
  operation that can throw returns a sum: \<open>Inl\<close> is the error it rejects with (each
  \<^verbatim>\<open>catch\<close> block logs the error and throws it again).
\<close>

subsection \<open>User profiles\<close>

text \<open>\<^verbatim>\<open>btoa\<close> and \<^verbatim>\<open>toUpperCase\<close> belong to the platform and are parameters.\<close>

record platform =
  btoa :: "jsstring \<Rightarrow> error + jsstring"
  toUpperCase :: "jsstring \<Rightarrow> jsstring"

definition colors :: "jsstring list" where
  "colors = [js ''#6200ee'', js ''#03dac6'', js ''#ff5722'', js ''#4caf50'', js ''#ff9800'',
     js ''#e91e63'']"

definition generateAvatarPlaceholder :: "platform \<Rightarrow> jsstring \<Rightarrow> error + jsstring" where
  \<open>generateAvatarPlaceholder pl name =
    (let initials = toUpperCase pl (take 2 name);
         colorIndex = length name mod length colors;
         color = colors ! colorIndex
     in case btoa pl
          (js ''\<newline>    <svg width="100" height="100" xmlns="http://www.w3.org/2000/svg">''
           @ js ''\<newline>      <circle cx="50" cy="50" r="50" fill="'' @ color @ js ''"/>''
           @ js ''\<newline>      <text x="50" y="60" font-family="Arial" font-size="30" ''
           @ js ''fill="white" text-anchor="middle">'' @ initials @ js ''</text>''
           @ js ''\<newline>    </svg>\<newline>  '') of
          Inl e \<Rightarrow> Inl e
        | Inr b \<Rightarrow> Inr (js ''data:image/svg+xml;base64,'' @ b))\<close>

text \<open>The spread \<^verbatim>\<open>...profileData\<close> copies the properties the payload has.\<close>

definition createUserProfile ::
  "platform \<Rightarrow> UserProfileData \<Rightarrow> store \<Rightarrow> (error + docid) \<times> store" where
  "createUserProfile pl profileData s =
    (let errors = validateUserProfile (Some (pf_displayName profileData)) (pf_bio profileData)
     in if length errors > 0 then (Inl (Error (join '', '' errors)), s)
        else
          case (case pf_profilePicture profileData of
                  Some p \<Rightarrow>
                    if p \<noteq> [] then Inr p
                    else generateAvatarPlaceholder pl (pf_displayName profileData)
                | None \<Rightarrow> generateAvatarPlaceholder pl (pf_displayName profileData)) of
            Inl e \<Rightarrow> (Inl e, s)
          | Inr profilePicture \<Rightarrow>
              let (docRef, s') = addDoc_userProfiles
                    \<lparr>u_uid = Val (pf_uid profileData),
                     u_displayName = Val (pf_displayName profileData),
                     u_email = Val (pf_email profileData),
                     u_bio = opt (pf_bio profileData),
                     u_profilePicture = Val profilePicture,
                     u_createdAt = Val (serverTime s),
                     u_updatedAt = Val (serverTime s)\<rparr> s
              in (Inr docRef, s'))"

subsection \<open>Posts\<close>

definition createPost :: "PostData \<Rightarrow> store \<Rightarrow> (error + docid) \<times> store" where
  "createPost postData s =
    (let errors = validatePost (Some (pd_title postData)) (Some (pd_content postData))
     in if length errors > 0 then (Inl (Error (join '', '' errors)), s)
        else
          let documentData =
                \<lparr>p_userId = Val (pd_userId postData),
                 p_userName = Val (pd_userName postData),
                 p_userAvatar = Absent,
                 p_title = Val (pd_title postData),
                 p_content = Val (pd_content postData),
                 p_imageData = Absent,
                 p_likesCount = Val 0,
                 p_commentsCount = Val 0,
                 p_createdAt = Val (serverTime s),
                 p_updatedAt = Val (serverTime s)\<rparr>;
              documentData = (case pd_userAvatar postData of
                  Some a \<Rightarrow> documentData\<lparr>p_userAvatar := Val a\<rparr>
                | None \<Rightarrow> documentData);
              documentData = (case pd_imageData postData of
                  Some i \<Rightarrow> documentData\<lparr>p_imageData := Val i\<rparr>
                | None \<Rightarrow> documentData);
              (docRef, s') = addDoc_posts documentData s
          in (Inr docRef, s'))"

text \<open>\<open>now\<close> is the client's clock, read by \<^verbatim>\<open>new Date()\<close>.\<close>

definition toPost :: "int \<Rightarrow> docid \<Rightarrow> post_doc \<Rightarrow> Post" where
  "toPost now i data =
    \<lparr>post_id = i,
     post_userId = p_userId data,
     post_userName = p_userName data,
     post_userAvatar = p_userAvatar data,
     post_title = p_title data,
     post_content = p_content data,
     post_imageData = p_imageData data,
     post_likesCount = num_or (p_likesCount data) 0,
     post_commentsCount = num_or (p_commentsCount data) 0,
     post_createdAt = date_or (p_createdAt data) now,
     post_updatedAt = date_or (p_updatedAt data) now\<rparr>"

definition getPost :: "docid \<Rightarrow> int \<Rightarrow> store \<Rightarrow> Post option" where
  "getPost postId now s =
    (case getDoc (posts s) postId of
       Some data \<Rightarrow> Some (toPost now postId data)
     | None \<Rightarrow> None)"

text \<open>
  The two batches of \<^verbatim>\<open>deletePost\<close>: each \<^verbatim>\<open>deleteDoc\<close> is issued in the order of the
  snapshot, and \<^verbatim>\<open>Promise.all\<close> is awaited before the next query is sent.
\<close>

definition deletePost :: "docid \<Rightarrow> store \<Rightarrow> store" where
  "deletePost postId s =
    (let commentsSnapshot = filter (\<lambda>(i, d). c_postId d = Val postId) (comments s);
         s = fold (\<lambda>doc. deleteDoc_comments (fst doc)) commentsSnapshot s;
         likesSnapshot = filter (\<lambda>(i, d). l_postId d = Val postId) (likes s);
         s = fold (\<lambda>doc. deleteDoc_likes (fst doc)) likesSnapshot s
     in deleteDoc_posts postId s)"

subsection \<open>Comments\<close>

definition createComment :: "CommentData \<Rightarrow> store \<Rightarrow> (error + docid) \<times> store" where
  "createComment commentData s =
    (let errors = validateComment (Some (cd_content commentData))
     in if length errors > 0 then (Inl (Error (join '', '' errors)), s)
        else
          let documentData =
                \<lparr>c_postId = Val (cd_postId commentData),
                 c_userId = Val (cd_userId commentData),
                 c_userName = Val (cd_userName commentData),
                 c_userAvatar = Absent,
                 c_content = Val (cd_content commentData),
                 c_createdAt = Val (serverTime s),
                 c_updatedAt = Val (serverTime s)\<rparr>;
              documentData = (case cd_userAvatar commentData of
                  Some a \<Rightarrow> documentData\<lparr>c_userAvatar := Val a\<rparr>
                | None \<Rightarrow> documentData);
              (docRef, s) = addDoc_comments documentData s;
              s = (case getDoc (posts s) (cd_postId commentData) of
                  Some postDoc \<Rightarrow>
                    let currentCount = num_or (p_commentsCount postDoc) 0
                    in updateDoc_posts (cd_postId commentData)
                         (\<lambda>d. d\<lparr>p_commentsCount := Val (roundToDouble (currentCount + 1))\<rparr>) s
                | None \<Rightarrow> s)
          in (Inr docRef, s))"

definition toComment :: "int \<Rightarrow> docid \<times> comment_doc \<Rightarrow> Comment" where
  "toComment now doc =
    (let data = snd doc in
     \<lparr>comment_id = fst doc,
      comment_postId = c_postId data,
      comment_userId = c_userId data,
      comment_userName = c_userName data,
      comment_userAvatar = c_userAvatar data,
      comment_content = c_content data,
      comment_createdAt = date_or (c_createdAt data) now,
      comment_updatedAt = date_or (c_updatedAt data) now\<rparr>)"

text \<open>
  The query has a \<^verbatim>\<open>where\<close> clause and no \<^verbatim>\<open>orderBy\<close>. \<^verbatim>\<open>comments.sort\<close> with the
  comparator \<^verbatim>\<open>a.createdAt.getTime() - b.createdAt.getTime()\<close> sorts on the creation
  time. The sort of the model is stable, as ECMAScript 2019 requires of
  \<^verbatim>\<open>Array.prototype.sort\<close>: comments of the same creation time stay in the order of the
  snapshot.
\<close>

definition getComments :: "docid \<Rightarrow> int \<Rightarrow> store \<Rightarrow> Comment list" where
  "getComments postId now s =
    (let querySnapshot = filter (\<lambda>(i, d). c_postId d = Val postId) (comments s);
         comments = map (toComment now) querySnapshot
     in sort_key comment_createdAt comments)"

text \<open>
  \<^verbatim>\<open>subscribeToComments\<close> registers a handler on the same query. The store calls the
  handler with the whole matching set at every change; \<open>subscribeToComments\<close> is the list
  the handler passes to \<^verbatim>\<open>callback\<close> for the snapshot of state \<open>s\<close>.
\<close>

definition subscribeToComments :: "docid \<Rightarrow> int \<Rightarrow> store \<Rightarrow> Comment list" where
  "subscribeToComments postId now s =
    (let querySnapshot = filter (\<lambda>(i, d). c_postId d = Val postId) (comments s);
         comments = map (toComment now) querySnapshot
     in sort_key comment_createdAt comments)"

definition deleteComment :: "docid \<Rightarrow> docid \<Rightarrow> store \<Rightarrow> store" where
  "deleteComment commentId postId s =
    (let s = deleteDoc_comments commentId s
     in case getDoc (posts s) postId of
          Some postDoc \<Rightarrow>
            let currentCount = num_or (p_commentsCount postDoc) 0
            in updateDoc_posts postId
                 (\<lambda>d. d\<lparr>p_commentsCount :=
                    Val (max 0 (roundToDouble (currentCount - 1)))\<rparr>) s
        | None \<Rightarrow> s)"

subsection \<open>Likes\<close>

definition toggleLike :: "docid \<Rightarrow> jsstring \<Rightarrow> jsstring \<Rightarrow> store \<Rightarrow> bool \<times> store" where
  "toggleLike postId userId userName s =
    (let querySnapshot =
           filter (\<lambda>(i, d). l_postId d = Val postId \<and> l_userId d = Val userId) (likes s)
     in case querySnapshot of
          [] \<Rightarrow>
            let (likeRef, s) = addDoc_likes
                  \<lparr>l_postId = Val postId, l_userId = Val userId, l_userName = Val userName,
                   l_createdAt = Val (serverTime s)\<rparr> s;
                s = (case getDoc (posts s) postId of
                    Some postDoc \<Rightarrow>
                      let currentCount = num_or (p_likesCount postDoc) 0
                      in updateDoc_posts postId
                           (\<lambda>d. d\<lparr>p_likesCount := Val (roundToDouble (currentCount + 1))\<rparr>) s
                  | None \<Rightarrow> s)
            in (True, s)
        | likeDoc # rest \<Rightarrow>
            let s = deleteDoc_likes (fst likeDoc) s;
                s = (case getDoc (posts s) postId of
                    Some postDoc \<Rightarrow>
                      let currentCount = num_or (p_likesCount postDoc) 0
                      in updateDoc_posts postId
                           (\<lambda>d. d\<lparr>p_likesCount :=
                              Val (max 0 (roundToDouble (currentCount - 1)))\<rparr>) s
                  | None \<Rightarrow> s)
            in (False, s))"

subsection \<open>Groups\<close>

definition createGroup :: "GroupData \<Rightarrow> store \<Rightarrow> (error + docid) \<times> store" where
  "createGroup groupData s =
    (let errors = validateGroup (Some (gd_name groupData)) (Some (gd_description groupData))
     in if length errors > 0 then (Inl (Error (join '', '' errors)), s)
        else
          let documentData =
                \<lparr>g_name = Val (gd_name groupData),
                 g_description = Val (gd_description groupData),
                 g_createdBy = Val (gd_createdBy groupData),
                 g_creatorName = Val (gd_creatorName groupData),
                 g_memberCount = Val 1,
                 g_isPrivate = Val (gd_isPrivate groupData \<or> False),
                 g_imageData = Absent,
                 g_createdAt = Val (serverTime s),
                 g_updatedAt = Val (serverTime s)\<rparr>;
              documentData = (case gd_imageData groupData of
                  Some i \<Rightarrow> documentData\<lparr>g_imageData := Val i\<rparr>
                | None \<Rightarrow> documentData);
              (docRef, s) = addDoc_groups documentData s;
              (memberRef, s) = addDoc_groupMembers
                \<lparr>gm_groupId = Val docRef,
                 gm_userId = Val (gd_createdBy groupData),
                 gm_userName = Val (gd_creatorName groupData),
                 gm_role = Val admin,
                 gm_joinedAt = Val (serverTime s)\<rparr> s
          in (Inr docRef, s))"

subsection \<open>Events\<close>

definition createEvent :: "EventData \<Rightarrow> store \<Rightarrow> (error + docid) \<times> store" where
  "createEvent eventData s =
    (let errors = validateEvent (Some (ed_title eventData)) (Some (ed_description eventData))
                    (Some (ed_startDate eventData)) (Some (ed_endDate eventData))
     in if length errors > 0 then (Inl (Error (join '', '' errors)), s)
        else
          let documentData =
                \<lparr>e_title = Val (ed_title eventData),
                 e_description = Val (ed_description eventData),
                 e_createdBy = Val (ed_createdBy eventData),
                 e_creatorName = Val (ed_creatorName eventData),
                 e_groupId = Absent,
                 e_startDate = Val (ed_startDate eventData),
                 e_endDate = Val (ed_endDate eventData),
                 e_location = Absent,
                 e_maxParticipants = Absent,
                 e_currentParticipants = Val 1,
                 e_isPublic = Val (ed_isPublic eventData \<or> True),
                 e_createdAt = Val (serverTime s),
                 e_updatedAt = Val (serverTime s)\<rparr>;
              documentData = (case ed_groupId eventData of
                  Some g \<Rightarrow> documentData\<lparr>e_groupId := Val g\<rparr>
                | None \<Rightarrow> documentData);
              documentData = (case ed_location eventData of
                  Some l \<Rightarrow> documentData\<lparr>e_location := Val l\<rparr>
                | None \<Rightarrow> documentData);
              documentData = (case ed_maxParticipants eventData of
                  Some m \<Rightarrow> documentData\<lparr>e_maxParticipants := Val m\<rparr>
                | None \<Rightarrow> documentData);
              (docRef, s) = addDoc_events documentData s;
              (participantRef, s) = addDoc_eventParticipants
                \<lparr>ep_eventId = Val docRef,
                 ep_userId = Val (ed_createdBy eventData),
                 ep_userName = Val (ed_creatorName eventData),
                 ep_status = Val going,
                 ep_joinedAt = Val (serverTime s)\<rparr> s
          in (Inr docRef, s))"

definition toEvent :: "int \<Rightarrow> docid \<times> event_doc \<Rightarrow> Event" where
  "toEvent now doc =
    (let data = snd doc in
     \<lparr>event_id = fst doc,
      event_title = e_title data,
      event_description = e_description data,
      event_createdBy = e_createdBy data,
      event_creatorName = e_creatorName data,
      event_groupId = e_groupId data,
      event_startDate = date_or (e_startDate data) now,
      event_endDate = date_or (e_endDate data) now,
      event_location = e_location data,
      event_maxParticipants = e_maxParticipants data,
      event_currentParticipants = num_or (e_currentParticipants data) 0,
      event_isPublic = bool_or (e_isPublic data) True,
      event_createdAt = date_or (e_createdAt data) now,
      event_updatedAt = date_or (e_updatedAt data) now\<rparr>)"

text \<open>
  \<^verbatim>\<open>orderBy('startDate', 'asc')\<close> keeps the documents that have the field and sorts them by
  it, null first; \<^verbatim>\<open>limit\<close> rejects a count that is not positive.
\<close>

definition startKey :: "docid \<times> event_doc \<Rightarrow> int option" where
  "startKey doc = (case e_startDate (snd doc) of Val t \<Rightarrow> Some t | _ \<Rightarrow> None)"

definition getEvents :: "int \<Rightarrow> int \<Rightarrow> store \<Rightarrow> error + Event list" where
  "getEvents limitCount now s =
    (if limitCount \<le> 0 then Inl InvalidArgument
     else
       let querySnapshot = take (nat limitCount)
             (sort_key startKey (filter (\<lambda>(i, d). e_startDate d \<noteq> Absent) (events s)))
       in Inr (map (toEvent now) querySnapshot))"

section \<open>The uniqueness invariant of likes\<close>

text \<open>
  A like counts for the pair (post id, user id) it names. The invariant: no pair is named
  by two documents of the \<^verbatim>\<open>likes\<close> collection.
\<close>

definition likeKey :: "docid \<times> like_doc \<Rightarrow> (docid \<times> jsstring) list" where
  "likeKey doc = (case (l_postId (snd doc), l_userId (snd doc)) of
      (Val p, Val u) \<Rightarrow> [(p, u)]
    | _ \<Rightarrow> [])"

definition uniqueLikes :: "store \<Rightarrow> bool" where
  "uniqueLikes s = distinct (concat (map likeKey (likes s)))"

section \<open>Example data\<close>

definition testPlatform :: platform where
  "testPlatform = \<lparr>btoa = (\<lambda>x. Inr x), toUpperCase = (\<lambda>x. x)\<rparr>"

definition emptyStore :: store where
  "emptyStore = \<lparr>userProfiles = [], posts = [], comments = [], likes = [], groups = [],
     groupMembers = [], events = [], eventParticipants = [], nextId = 0, serverTime = 1000,
     writes = []\<rparr>"

definition helloPost :: PostData where
  "helloPost = \<lparr>pd_userId = js ''U'', pd_userName = js ''U'', pd_userAvatar = None,
     pd_title = js ''Hello World'', pd_content = js ''This is my first post!'',
     pd_imageData = None\<rparr>"

definition niceComment :: CommentData where
  "niceComment = \<lparr>cd_postId = 0, cd_userId = js ''U'', cd_userName = js ''U'',
     cd_userAvatar = None, cd_content = js ''Nice!''\<rparr>"

definition readersClub :: GroupData where
  "readersClub = \<lparr>gd_name = js ''Readers Club'', gd_description = js ''A club for readers'',
     gd_createdBy = js ''U'', gd_creatorName = js ''U'', gd_isPrivate = False,
     gd_imageData = None\<rparr>"

definition privateEvent :: EventData where
  "privateEvent = \<lparr>ed_title = js ''Reading night'', ed_description = js ''Bring a book'',
     ed_createdBy = js ''U'', ed_creatorName = js ''U'', ed_groupId = None,
     ed_startDate = 2000, ed_endDate = 3000, ed_location = None, ed_maxParticipants = None,
     ed_isPublic = False\<rparr>"

definition shortProfile :: UserProfileData where
  "shortProfile = \<lparr>pf_uid = js ''U'', pf_displayName = js ''A'', pf_email = js ''u@example.org'',
     pf_bio = None, pf_profilePicture = None\<rparr>"

definition helloPostDoc :: post_doc where
  "helloPostDoc = \<lparr>p_userId = Val (js ''U''), p_userName = Val (js ''U''),
     p_userAvatar = Absent, p_title = Val (js ''Hello World''),
     p_content = Val (js ''This is my first post!''), p_imageData = Absent,
     p_likesCount = Val 0, p_commentsCount = Val 0, p_createdAt = Val 1000,
     p_updatedAt = Val 1000\<rparr>"

definition commentDoc :: "docid \<Rightarrow> int field \<Rightarrow> string \<Rightarrow> comment_doc" where
  "commentDoc postId t body = \<lparr>c_postId = Val postId, c_userId = Val (js ''V''),
     c_userName = Val (js ''V''), c_userAvatar = Absent, c_content = Val (js body),
     c_createdAt = t, c_updatedAt = t\<rparr>"

definition likeDocU :: like_doc where
  "likeDocU = \<lparr>l_postId = Val 0, l_userId = Val (js ''U''), l_userName = Val (js ''U''),
     l_createdAt = Val 1500\<rparr>"

definition onePostStore :: store where
  "onePostStore = emptyStore\<lparr>posts := [(0, helloPostDoc)], nextId := 1\<rparr>"

definition busyStore :: store where
  "busyStore = emptyStore
     \<lparr>posts := [(0, helloPostDoc\<lparr>p_likesCount := Val 1, p_commentsCount := Val 2\<rparr>)],
      comments := [(1, commentDoc 0 Null ''Just sent''), (2, commentDoc 0 (Val 30) ''Nice!''),
        (3, commentDoc 1 (Val 10) ''Elsewhere''), (4, commentDoc 0 (Val 20) ''First'')],
      likes := [(5, likeDocU)],
      nextId := 6\<rparr>"

definition driftedStore :: store where
  "driftedStore = onePostStore\<lparr>comments := [(2, commentDoc 0 (Val 30) ''Nice!'')], nextId := 3\<rparr>"

definition hugeCountStore :: store where
  "hugeCountStore = emptyStore
     \<lparr>posts := [(0, helloPostDoc\<lparr>p_likesCount := Val 9007199254740992,
                  p_commentsCount := Val 9007199254740994\<rparr>)],
      comments := [(2, commentDoc 0 (Val 30) ''Nice!'')],
      nextId := 3\<rparr>"

section \<open>Facts about the store primitives\<close>

lemma trim_Nil [simp]: "trim [] = []"
  by (simp add: trim_def)

lemma getDoc_without_same: "getDoc (without i c) i = None"
  by (induction c) (auto simp: getDoc_def without_def)

lemma getDoc_without_other: "j \<noteq> i \<Longrightarrow> getDoc (without i c) j = getDoc c j"
  by (induction c) (auto simp: getDoc_def without_def)

lemma getDoc_patched_same: "getDoc (patched i f c) i = map_option f (getDoc c i)"
  by (induction c) (auto simp: getDoc_def patched_def)

lemma getDoc_patched_other: "j \<noteq> i \<Longrightarrow> getDoc (patched i f c) j = getDoc c j"
  by (induction c) (auto simp: getDoc_def patched_def)

lemma roundToDouble_safe: "\<bar>n\<bar> \<le> 9007199254740992 \<Longrightarrow> roundToDouble n = n"
  by (simp add: roundToDouble_def)

lemma num_or_safe: "\<bar>n\<bar> \<le> 9007199254740992 \<Longrightarrow> num_or (Val n) 0 = n"
  by (simp add: num_or_def roundToDouble_def Let_def)

lemma roundToDouble_tie: "roundToDouble 9007199254740993 = 9007199254740992"
proof -
  have e: "excess 9007199254740993 = 1" by (simp add: excess.simps)
  show ?thesis by (simp add: roundToDouble_def Let_def e)
qed

lemma roundToDouble_exact: "roundToDouble 9007199254740994 = 9007199254740994"
proof -
  have e: "excess 9007199254740994 = 1" by (simp add: excess.simps)
  show ?thesis by (simp add: roundToDouble_def Let_def e)
qed

lemma likes_updateDoc_posts [simp]: "likes (updateDoc_posts i f s) = likes s"
  by (simp add: updateDoc_posts_def)

section \<open>Likes\<close>

text \<open>
  Claim C1, as amended. Take a store in which the user has no like on the post, and in
  which the likes counter that \<^verbatim>\<open>getPost\<close> reads for the post is not negative and
  below \<open>2 ^ 53 = 9007199254740992\<close> (or the post does not exist). Two calls of
  \<^verbatim>\<open>toggleLike\<close> in sequence then return true and false, and \<^verbatim>\<open>getPost\<close> reads the same
  likes counter after the second call as before the first.
\<close>

theorem toggleLike_twice:
  assumes unliked:
      "filter (\<lambda>(i, d). l_postId d = Val postId \<and> l_userId d = Val userId) (likes s) = []"
    and safe: "case getPost postId now s of None \<Rightarrow> True
      | Some p \<Rightarrow> 0 \<le> post_likesCount p \<and> post_likesCount p < 9007199254740992"
  shows "fst (toggleLike postId userId userName s) = True \<and>
    fst (toggleLike postId userId userName (snd (toggleLike postId userId userName s))) = False \<and>
    map_option post_likesCount
      (getPost postId now
        (snd (toggleLike postId userId userName (snd (toggleLike postId userId userName s))))) =
    map_option post_likesCount (getPost postId now s)"
proof (cases "getDoc (posts s) postId")
  case None
  with unliked show ?thesis
    by (simp add: toggleLike_def addDoc_likes_def deleteDoc_likes_def Let_def getPost_def)
next
  case (Some postDoc)
  define c where "c = num_or (p_likesCount postDoc) 0"
  from safe Some have c: "0 \<le> c" "c < 9007199254740992"
    by (simp_all add: getPost_def toPost_def c_def)
  from c have up: "roundToDouble (c + 1) = c + 1"
    by (simp add: roundToDouble_safe)
  from c have read: "num_or (Val (c + 1)) 0 = c + 1"
    by (simp add: num_or_safe)
  from c have down: "roundToDouble c = c"
    by (simp add: roundToDouble_safe)
  from c have rd: "num_or (Val c) 0 = c"
    by (simp add: num_or_safe)
  from unliked Some c show ?thesis
    by (simp add: toggleLike_def addDoc_likes_def deleteDoc_likes_def updateDoc_posts_def
        Let_def getPost_def toPost_def getDoc_patched_same c_def [symmetric] up read down rd)
qed

text \<open>
  An instance: a store with one post, counter 0, and no like.
\<close>

theorem toggleLike_twice_witness:
  "filter (\<lambda>(i, d). l_postId d = Val 0 \<and> l_userId d = Val (js ''U'')) (likes onePostStore) = [] \<and>
   (case getPost 0 5000 onePostStore of None \<Rightarrow> True
    | Some p \<Rightarrow> 0 \<le> post_likesCount p \<and> post_likesCount p < 9007199254740992) \<and>
   fst (toggleLike 0 (js ''U'') (js ''U'') onePostStore) = True \<and>
   map (p_likesCount \<circ> snd) (posts (snd (toggleLike 0 (js ''U'') (js ''U'') onePostStore))) =
     [Val 1] \<and>
   fst (toggleLike 0 (js ''U'') (js ''U'')
         (snd (toggleLike 0 (js ''U'') (js ''U'') onePostStore))) = False \<and>
   map_option post_likesCount
     (getPost 0 5000
       (snd (toggleLike 0 (js ''U'') (js ''U'')
         (snd (toggleLike 0 (js ''U'') (js ''U'') onePostStore))))) = Some 0"
proof -
  have h1: "filter (\<lambda>(i, d). l_postId d = Val 0 \<and> l_userId d = Val (js ''U''))
      (likes onePostStore) = []"
    by (simp add: onePostStore_def emptyStore_def)
  have h2: "case getPost 0 5000 onePostStore of None \<Rightarrow> True
    | Some p \<Rightarrow> 0 \<le> post_likesCount p \<and> post_likesCount p < 9007199254740992"
    by (simp add: onePostStore_def emptyStore_def getPost_def getDoc_def toPost_def
        helloPostDoc_def num_or_def roundToDouble_def)
  have h3: "map_option post_likesCount (getPost 0 5000 onePostStore) = Some 0"
    by (simp add: onePostStore_def emptyStore_def getPost_def getDoc_def toPost_def
        helloPostDoc_def num_or_def roundToDouble_def)
  have h4: "map (p_likesCount \<circ> snd)
      (posts (snd (toggleLike 0 (js ''U'') (js ''U'') onePostStore))) = [Val 1]"
    by (simp add: toggleLike_def onePostStore_def emptyStore_def addDoc_likes_def
        updateDoc_posts_def getDoc_def patched_def helloPostDoc_def num_or_def
        roundToDouble_def Let_def)
  from toggleLike_twice [OF h1 h2, of "js ''U''"] h1 h2 h3 h4 show ?thesis
    by simp
qed

text \<open>
  Without the first assumption the results are the other way round: when the user already
  has a like on the post, the first call removes it and returns false, and the second
  call returns true.
\<close>

theorem toggleLike_liked_counterexample:
  "fst (toggleLike 0 (js ''U'') (js ''U'') busyStore) = False \<and>
   fst (toggleLike 0 (js ''U'') (js ''U'')
         (snd (toggleLike 0 (js ''U'') (js ''U'') busyStore))) = True"
  by (simp add: toggleLike_def busyStore_def emptyStore_def likeDocU_def deleteDoc_likes_def
      addDoc_likes_def updateDoc_posts_def getDoc_def without_def patched_def Let_def)

text \<open>
  Without the bound on the counter it does not come back either: at \<open>2 ^ 53\<close> the
  increment is lost in rounding and the decrement is not.
\<close>

lemma toggleLike_twice_at_2_53:
  "filter (\<lambda>(i, d). l_postId d = Val 0 \<and> l_userId d = Val (js ''U'')) (likes hugeCountStore) = [] \<and>
   map_option post_likesCount (getPost 0 5000 hugeCountStore) = Some 9007199254740992 \<and>
   map_option post_likesCount
     (getPost 0 5000 (snd (toggleLike 0 (js ''U'') (js ''U'') hugeCountStore))) =
       Some 9007199254740992 \<and>
   map_option post_likesCount
     (getPost 0 5000
       (snd (toggleLike 0 (js ''U'') (js ''U'')
         (snd (toggleLike 0 (js ''U'') (js ''U'') hugeCountStore))))) = Some 9007199254740991"
proof -
  have r: "roundToDouble 9007199254740992 = 9007199254740992"
    "roundToDouble 9007199254740991 = 9007199254740991"
    by (simp_all add: roundToDouble_def)
  show ?thesis
    by (simp add: toggleLike_def hugeCountStore_def emptyStore_def addDoc_likes_def
        deleteDoc_likes_def updateDoc_posts_def getDoc_def without_def patched_def getPost_def
        toPost_def helloPostDoc_def num_or_def r roundToDouble_tie Let_def)
qed

subsection \<open>The uniqueness invariant\<close>

text \<open>
  \<open>uniqueLikes\<close> says that every pair (post id, user id) has at most one like.
\<close>

lemma count_likeKeys:
  "count_list (concat (map likeKey ls)) (p, u) =
     length (filter (\<lambda>(i, d). l_postId d = Val p \<and> l_userId d = Val u) ls)"
  by (induction ls) (auto simp: likeKey_def split: field.splits)

lemma distinct_count_list_le: "distinct xs \<longleftrightarrow> (\<forall>a. count_list xs a \<le> 1)"
proof (induction xs)
  case Nil
  then show ?case by simp
next
  case (Cons x xs)
  show ?case
  proof
    assume d: "distinct (x # xs)"
    then have "x \<notin> set xs" and "\<forall>a. count_list xs a \<le> 1"
      using Cons by auto
    then show "\<forall>a. count_list (x # xs) a \<le> 1"
      by (auto simp: count_list_0_iff)
  next
    assume a: "\<forall>a. count_list (x # xs) a \<le> 1"
    then have "count_list xs x = 0"
      by (metis add_le_same_cancel2 count_list.simps(2) le_zero_eq not_one_le_zero)
    then have "x \<notin> set xs" by (simp add: count_list_0_iff)
    moreover have "\<forall>b. count_list xs b \<le> 1"
    proof
      fix b
      from a have "count_list (x # xs) b \<le> 1" by blast
      then show "count_list xs b \<le> 1" by (simp split: if_splits)
    qed
    ultimately show "distinct (x # xs)" using Cons by simp
  qed
qed

lemma uniqueLikes_iff:
  "uniqueLikes s \<longleftrightarrow>
     (\<forall>p u. length (filter (\<lambda>(i, d). l_postId d = Val p \<and> l_userId d = Val u) (likes s)) \<le> 1)"
  by (simp add: uniqueLikes_def distinct_count_list_le count_likeKeys)

lemma likeKey_notin:
  "filter (\<lambda>(i, d). l_postId d = Val p \<and> l_userId d = Val u) ls = [] \<Longrightarrow>
   (p, u) \<notin> set (concat (map likeKey ls))"
  by (induction ls) (auto simp: likeKey_def split: field.splits if_splits)

lemma likeKeys_without_subset:
  "set (concat (map likeKey (without i ls))) \<subseteq> set (concat (map likeKey ls))"
  by (induction ls) (auto simp: without_def)

lemma likeKey_distinct: "distinct (likeKey doc)"
  by (simp add: likeKey_def split: field.splits)

lemma likeKeys_without_distinct:
  "distinct (concat (map likeKey ls)) \<Longrightarrow> distinct (concat (map likeKey (without i ls)))"
proof (induction ls)
  case Nil
  then show ?case by (simp add: without_def)
next
  case (Cons a ls)
  have sub: "set (concat (map likeKey (without i ls))) \<subseteq> set (concat (map likeKey ls))"
    by (rule likeKeys_without_subset)
  from Cons show ?case
    using sub by (cases a) (auto simp: without_def)
qed

text \<open>
  Claim C9. Run without interleaving, \<^verbatim>\<open>toggleLike\<close> preserves the invariant "at most one
  like per (post id, user id) pair": it inserts a like only when its query for the pair
  has found none, and otherwise deletes one.
\<close>

theorem toggleLike_preserves_uniqueLikes:
  "uniqueLikes s \<Longrightarrow> uniqueLikes (snd (toggleLike postId userId userName s))"
proof (cases "filter (\<lambda>(i, d). l_postId d = Val postId \<and> l_userId d = Val userId) (likes s)")
  case Nil
  assume u: "uniqueLikes s"
  from Nil have "(postId, userId) \<notin> set (concat (map likeKey (likes s)))"
    by (rule likeKey_notin)
  with u Nil show ?thesis
    by (simp add: toggleLike_def uniqueLikes_def addDoc_likes_def Let_def likeKey_def
        split: option.splits)
next
  case (Cons likeDoc rest)
  assume u: "uniqueLikes s"
  then have "distinct (concat (map likeKey (without (fst likeDoc) (likes s))))"
    unfolding uniqueLikes_def by (rule likeKeys_without_distinct)
  with Cons show ?thesis
    by (simp add: toggleLike_def uniqueLikes_def deleteDoc_likes_def Let_def
        split: option.splits)
qed

text \<open>
  An instance: user V likes a post that user U has liked already.
\<close>

theorem toggleLike_preserves_uniqueLikes_witness:
  "uniqueLikes busyStore \<and> uniqueLikes (snd (toggleLike 0 (js ''V'') (js ''V'') busyStore)) \<and>
   map fst (likes (snd (toggleLike 0 (js ''V'') (js ''V'') busyStore))) = [5, 6]"
proof -
  have h: "uniqueLikes busyStore"
    by (simp add: uniqueLikes_def busyStore_def emptyStore_def likeKey_def likeDocU_def)
  have e: "map fst (likes (snd (toggleLike 0 (js ''V'') (js ''V'') busyStore))) = [5, 6]"
    by (simp add: toggleLike_def busyStore_def emptyStore_def likeDocU_def addDoc_likes_def
        updateDoc_posts_def getDoc_def Let_def js_def)
  from toggleLike_preserves_uniqueLikes [OF h, of 0 "js ''V''" "js ''V''"] h e show ?thesis
    by simp
qed

section \<open>Create and read\<close>

text \<open>
  What \<^verbatim>\<open>createPost\<close> writes is what \<^verbatim>\<open>getPost\<close> reads back, with both counters 0, when the
  store assigns an identifier that is not in use. Every event is read as public.
\<close>

lemma createPost_getPost:
  assumes "validatePost (Some (pd_title postData)) (Some (pd_content postData)) = []"
    and "getDoc (posts s) (nextId s) = None"
  shows "fst (createPost postData s) = Inr (nextId s) \<and>
    getPost (nextId s) now (snd (createPost postData s)) =
      Some \<lparr>post_id = nextId s,
        post_userId = Val (pd_userId postData),
        post_userName = Val (pd_userName postData),
        post_userAvatar = (case pd_userAvatar postData of None \<Rightarrow> Absent | Some a \<Rightarrow> Val a),
        post_title = Val (pd_title postData),
        post_content = Val (pd_content postData),
        post_imageData = (case pd_imageData postData of None \<Rightarrow> Absent | Some i \<Rightarrow> Val i),
        post_likesCount = 0,
        post_commentsCount = 0,
        post_createdAt = serverTime s,
        post_updatedAt = serverTime s\<rparr>"
  using assms
  by (simp add: createPost_def addDoc_posts_def getPost_def toPost_def getDoc_def Let_def
      num_or_def roundToDouble_def date_or_def map_add_def split: option.splits)

lemma toEvent_isPublic: "event_isPublic (toEvent now doc) = True"
  by (simp add: toEvent_def bool_or_def Let_def split: field.splits)

text \<open>
  Claim C2 fails on events. \<^verbatim>\<open>isPublic\<close> is a required field of an event, and
  \<^verbatim>\<open>createEvent\<close> writes \<^verbatim>\<open>eventData.isPublic || true\<close>, which is true whatever the
  payload says; \<^verbatim>\<open>getEvents\<close> reads the field with the same expression. An event
  created with \<^verbatim>\<open>isPublic: false\<close> is stored as public and read back as public.
  (\<^verbatim>\<open>createGroup\<close> writes \<^verbatim>\<open>groupData.isPrivate || false\<close>, which keeps the payload's flag.)
\<close>

theorem createEvent_private_is_read_public:
  "ed_isPublic privateEvent = False \<and>
   validateEvent (Some (ed_title privateEvent)) (Some (ed_description privateEvent))
     (Some (ed_startDate privateEvent)) (Some (ed_endDate privateEvent)) = [] \<and>
   fst (createEvent privateEvent emptyStore) = Inr 0 \<and>
   map (e_isPublic \<circ> snd) (events (snd (createEvent privateEvent emptyStore))) = [Val True] \<and>
   (case getEvents 20 5000 (snd (createEvent privateEvent emptyStore)) of
      Inr [e] \<Rightarrow> event_id e = 0 \<and> event_title e = Val (ed_title privateEvent) \<and>
        event_isPublic e = True
    | _ \<Rightarrow> False)"
  by (simp add: privateEvent_def emptyStore_def createEvent_def validateEvent_def getEvents_def
      addDoc_events_def addDoc_eventParticipants_def toEvent_def startKey_def bool_or_def
      trim_def isWhiteSpace_def js_def Let_def)

section \<open>Validation\<close>

text \<open>
  Claim C3, as amended. \<^verbatim>\<open>validatePost\<close> returns no error for a title of 3 to 100
  characters and a content of 10 to 2000 characters when neither consists of white space
  only. For a title of length 0, 2 or 101 the errors contain "Title is required" when the
  title is empty or white space only, and otherwise the message for the bound that is
  broken; likewise for a content of length 0, 5 or 2001.
\<close>

theorem validatePost_lengths:
  "(trim t \<noteq> [] \<and> 3 \<le> length t \<and> length t \<le> 100 \<and>
    trim c \<noteq> [] \<and> 10 \<le> length c \<and> length c \<le> 2000
      \<longrightarrow> validatePost (Some t) (Some c) = []) \<and>
   (length t \<in> {0, 2, 101} \<longrightarrow>
      (if trim t = [] then ''Title is required''
       else if length t = 2 then ''Title must be at least 3 characters''
       else ''Title must be less than 100 characters'')
        \<in> set (validatePost (Some t) content)) \<and>
   (length c \<in> {0, 5, 2001} \<longrightarrow>
      (if trim c = [] then ''Content is required''
       else if length c = 5 then ''Content must be at least 10 characters''
       else ''Content must be less than 2000 characters'')
        \<in> set (validatePost title (Some c)))"
  by (auto simp add: validatePost_def Let_def split: option.splits)

text \<open>
  Instances: the post "Hello World" / "This is my first post!", the title "ab" and the
  content "hello".
\<close>

theorem validatePost_lengths_witness:
  "(trim (js ''Hello World'') \<noteq> [] \<and> 3 \<le> length (js ''Hello World'') \<and>
    length (js ''Hello World'') \<le> 100 \<and> trim (js ''This is my first post!'') \<noteq> [] \<and>
    10 \<le> length (js ''This is my first post!'') \<and>
    length (js ''This is my first post!'') \<le> 2000) \<and>
   validatePost (Some (js ''Hello World'')) (Some (js ''This is my first post!'')) = [] \<and>
   length (js ''ab'') \<in> {0, 2, 101} \<and>
   ''Title must be at least 3 characters'' \<in> set (validatePost (Some (js ''ab'')) None) \<and>
   length (js ''hello'') \<in> {0, 5, 2001} \<and>
   ''Content must be at least 10 characters'' \<in> set (validatePost None (Some (js ''hello'')))"
  using validatePost_lengths [of "js ''Hello World''" "js ''This is my first post!''"]
    validatePost_lengths [of "js ''ab''" _ None]
    validatePost_lengths [of _ "js ''hello''" _ None]
  by (simp add: js_def trim_def isWhiteSpace_def)

text \<open>
  A title of three spaces has length 3 and is rejected: the test \<^verbatim>\<open>!post.title?.trim()\<close>
  comes before the length tests.
\<close>

theorem validatePost_blank_title_counterexample:
  "length (js ''   '') = 3 \<and> length (js ''0123456789'') = 10 \<and>
   validatePost (Some (js ''   '')) (Some (js ''0123456789'')) = [''Title is required'']"
  by (simp add: validatePost_def js_def trim_def isWhiteSpace_def)

text \<open>
  Claim C4. When the validation function of the entity returns errors,
  \<^verbatim>\<open>createUserProfile\<close>, \<^verbatim>\<open>createPost\<close>, \<^verbatim>\<open>createComment\<close>, \<^verbatim>\<open>createGroup\<close> and
  \<^verbatim>\<open>createEvent\<close> fail with an error whose message is the errors joined by ", ", and the
  store is left as it was: no document is added, no counter is changed, no request is sent.
\<close>

theorem create_rejects_invalid:
  "(validateUserProfile (Some (pf_displayName profileData)) (pf_bio profileData) \<noteq> [] \<longrightarrow>
      createUserProfile pl profileData s =
        (Inl (Error (join '', ''
           (validateUserProfile (Some (pf_displayName profileData)) (pf_bio profileData)))), s)) \<and>
   (validatePost (Some (pd_title postData)) (Some (pd_content postData)) \<noteq> [] \<longrightarrow>
      createPost postData s =
        (Inl (Error (join '', ''
           (validatePost (Some (pd_title postData)) (Some (pd_content postData))))), s)) \<and>
   (validateComment (Some (cd_content commentData)) \<noteq> [] \<longrightarrow>
      createComment commentData s =
        (Inl (Error (join '', '' (validateComment (Some (cd_content commentData))))), s)) \<and>
   (validateGroup (Some (gd_name groupData)) (Some (gd_description groupData)) \<noteq> [] \<longrightarrow>
      createGroup groupData s =
        (Inl (Error (join '', ''
           (validateGroup (Some (gd_name groupData)) (Some (gd_description groupData))))), s)) \<and>
   (validateEvent (Some (ed_title eventData)) (Some (ed_description eventData))
        (Some (ed_startDate eventData)) (Some (ed_endDate eventData)) \<noteq> [] \<longrightarrow>
      createEvent eventData s =
        (Inl (Error (join '', ''
           (validateEvent (Some (ed_title eventData)) (Some (ed_description eventData))
              (Some (ed_startDate eventData)) (Some (ed_endDate eventData))))), s))"
  by (simp add: createUserProfile_def createPost_def createComment_def createGroup_def
      createEvent_def Let_def)

text \<open>
  Instances: a display name of one character, a post with a short title and a blank
  content, an empty comment, a group named "AB", an event that ends when it starts.
\<close>

theorem create_rejects_invalid_witness:
  "validateUserProfile (Some (pf_displayName shortProfile)) (pf_bio shortProfile) \<noteq> [] \<and>
   createUserProfile testPlatform shortProfile emptyStore =
     (Inl (Error ''Display name must be at least 2 characters''), emptyStore) \<and>
   validatePost (Some (pd_title (helloPost\<lparr>pd_title := js ''Hi'', pd_content := js ''  ''\<rparr>)))
     (Some (pd_content (helloPost\<lparr>pd_title := js ''Hi'', pd_content := js ''  ''\<rparr>))) \<noteq> [] \<and>
   createPost (helloPost\<lparr>pd_title := js ''Hi'', pd_content := js ''  ''\<rparr>) emptyStore =
     (Inl (Error ''Title must be at least 3 characters, Content is required''), emptyStore) \<and>
   validateComment (Some (cd_content (niceComment\<lparr>cd_content := []\<rparr>))) \<noteq> [] \<and>
   createComment (niceComment\<lparr>cd_content := []\<rparr>) onePostStore =
     (Inl (Error ''Comment content is required''), onePostStore) \<and>
   validateGroup (Some (gd_name (readersClub\<lparr>gd_name := js ''AB''\<rparr>)))
     (Some (gd_description (readersClub\<lparr>gd_name := js ''AB''\<rparr>))) \<noteq> [] \<and>
   createGroup (readersClub\<lparr>gd_name := js ''AB''\<rparr>) emptyStore =
     (Inl (Error ''Group name must be at least 3 characters''), emptyStore) \<and>
   validateEvent (Some (ed_title (privateEvent\<lparr>ed_endDate := 2000\<rparr>)))
     (Some (ed_description (privateEvent\<lparr>ed_endDate := 2000\<rparr>)))
     (Some (ed_startDate (privateEvent\<lparr>ed_endDate := 2000\<rparr>)))
     (Some (ed_endDate (privateEvent\<lparr>ed_endDate := 2000\<rparr>))) \<noteq> [] \<and>
   createEvent (privateEvent\<lparr>ed_endDate := 2000\<rparr>) emptyStore =
     (Inl (Error ''End date must be after start date''), emptyStore)"
  using create_rejects_invalid [of shortProfile testPlatform emptyStore
      "helloPost\<lparr>pd_title := js ''Hi'', pd_content := js ''  ''\<rparr>"
      "niceComment\<lparr>cd_content := []\<rparr>"
      "readersClub\<lparr>gd_name := js ''AB''\<rparr>"
      "privateEvent\<lparr>ed_endDate := 2000\<rparr>"]
    create_rejects_invalid [of shortProfile testPlatform onePostStore
      "helloPost\<lparr>pd_title := js ''Hi'', pd_content := js ''  ''\<rparr>"
      "niceComment\<lparr>cd_content := []\<rparr>"
      "readersClub\<lparr>gd_name := js ''AB''\<rparr>"
      "privateEvent\<lparr>ed_endDate := 2000\<rparr>"]
  by (simp add: shortProfile_def helloPost_def niceComment_def readersClub_def privateEvent_def
      validateUserProfile_def validatePost_def validateComment_def validateGroup_def
      validateEvent_def js_def trim_def isWhiteSpace_def)

section \<open>Comments\<close>

text \<open>
  Claim C5, as amended. When the parent post exists with a comments counter \<open>c\<close> from 0
  to \<open>2 ^ 53 = 9007199254740992\<close>, \<^verbatim>\<open>deleteComment\<close> removes the comment and sets the
  counter to \<open>max 0 (c - 1)\<close>; at \<open>c = 0\<close> the counter stays 0. No error is raised.
\<close>

theorem deleteComment_decrements:
  assumes post: "getDoc (posts s) postId = Some postDoc"
    and count: "p_commentsCount postDoc = Val c"
    and range: "0 \<le> c" "c \<le> 9007199254740992"
  shows "comments (deleteComment commentId postId s) = without commentId (comments s) \<and>
   getDoc (comments (deleteComment commentId postId s)) commentId = None \<and>
   getDoc (posts (deleteComment commentId postId s)) postId =
     Some (postDoc\<lparr>p_commentsCount := Val (max 0 (c - 1))\<rparr>)"
proof -
  from range have rd: "num_or (Val c) 0 = c"
    by (simp add: num_or_safe)
  from range have dec: "roundToDouble (c - 1) = c - 1"
    by (simp add: roundToDouble_safe)
  from post count show ?thesis
    by (simp add: deleteComment_def deleteDoc_comments_def updateDoc_posts_def Let_def
        getDoc_without_same getDoc_patched_same rd dec)
qed

text \<open>
  Instances: a comment deleted from a post with counter 2, and a comment deleted from a
  post whose counter has drifted to 0.
\<close>

theorem deleteComment_decrements_witness:
  "getDoc (posts busyStore) 0 =
     Some (helloPostDoc\<lparr>p_likesCount := Val 1, p_commentsCount := Val 2\<rparr>) \<and>
   p_commentsCount (helloPostDoc\<lparr>p_likesCount := Val 1, p_commentsCount := Val 2\<rparr>) = Val 2 \<and>
   (0::int) \<le> 2 \<and> (2::int) \<le> 9007199254740992 \<and>
   map fst (comments busyStore) = [1, 2, 3, 4] \<and>
   map fst (comments (deleteComment 2 0 busyStore)) = [1, 3, 4] \<and>
   getDoc (comments (deleteComment 2 0 busyStore)) 2 = None \<and>
   getDoc (posts (deleteComment 2 0 busyStore)) 0 =
     Some (helloPostDoc\<lparr>p_likesCount := Val 1, p_commentsCount := Val 1\<rparr>) \<and>
   getDoc (posts driftedStore) 0 = Some helloPostDoc \<and>
   p_commentsCount helloPostDoc = Val 0 \<and>
   map fst (comments driftedStore) = [2] \<and>
   comments (deleteComment 2 0 driftedStore) = [] \<and>
   getDoc (posts (deleteComment 2 0 driftedStore)) 0 = Some helloPostDoc"
proof -
  have b1: "getDoc (posts busyStore) 0 =
     Some (helloPostDoc\<lparr>p_likesCount := Val 1, p_commentsCount := Val 2\<rparr>)"
    by (simp add: busyStore_def emptyStore_def getDoc_def)
  have b2: "p_commentsCount (helloPostDoc\<lparr>p_likesCount := Val 1, p_commentsCount := Val 2\<rparr>)
      = Val 2"
    by simp
  have b3: "map fst (comments busyStore) = [1, 2, 3, 4]"
    by (simp add: busyStore_def emptyStore_def)
  note rb = deleteComment_decrements [OF b1 b2, of 2, simplified]
  from rb have b4: "comments (deleteComment 2 0 busyStore) = without 2 (comments busyStore)"
    by blast
  have b5: "map fst (without 2 (comments busyStore)) = [1, 3, 4]"
    by (simp add: busyStore_def emptyStore_def without_def)
  from rb have b6: "getDoc (comments (deleteComment 2 0 busyStore)) 2 = None"
    by blast
  from rb have b7: "getDoc (posts (deleteComment 2 0 busyStore)) 0 =
     Some (helloPostDoc\<lparr>p_likesCount := Val 1, p_commentsCount := Val 1\<rparr>)"
    by blast
  have d1: "getDoc (posts driftedStore) 0 = Some helloPostDoc"
    by (simp add: driftedStore_def onePostStore_def emptyStore_def getDoc_def)
  have d2: "p_commentsCount helloPostDoc = Val 0"
    by (simp add: helloPostDoc_def)
  have d3: "map fst (comments driftedStore) = [2]"
    by (simp add: driftedStore_def onePostStore_def emptyStore_def)
  note rd = deleteComment_decrements [OF d1 d2, of 2, simplified]
  from rd have d4: "comments (deleteComment 2 0 driftedStore) = without 2 (comments driftedStore)"
    by blast
  have d5: "without 2 (comments driftedStore) = []"
    by (simp add: driftedStore_def onePostStore_def emptyStore_def without_def)
  have u: "helloPostDoc\<lparr>p_commentsCount := Val 0\<rparr> = helloPostDoc"
    by (simp add: helloPostDoc_def)
  from rd have "getDoc (posts (deleteComment 2 0 driftedStore)) 0 =
      Some (helloPostDoc\<lparr>p_commentsCount := Val 0\<rparr>)"
    by blast
  with u have d6: "getDoc (posts (deleteComment 2 0 driftedStore)) 0 = Some helloPostDoc"
    by simp
  from b1 b2 b3 b4 b5 b6 b7 d1 d2 d3 d4 d5 d6 show ?thesis
    by simp
qed

text \<open>
  Beyond \<open>2 ^ 53\<close> the subtraction rounds: the counter \<open>2 ^ 53 + 2\<close> is a double, and
  \<^verbatim>\<open>currentCount - 1\<close> is \<open>2 ^ 53\<close>, not \<open>2 ^ 53 + 1\<close>.
\<close>

theorem deleteComment_large_counter_counterexample:
  "map (p_commentsCount \<circ> snd) (posts hugeCountStore) = [Val 9007199254740994] \<and>
   roundToDouble 9007199254740994 = 9007199254740994 \<and>
   map (p_commentsCount \<circ> snd) (posts (deleteComment 2 0 hugeCountStore)) =
     [Val 9007199254740992] \<and>
   max 0 (9007199254740994 - 1) = (9007199254740993 :: int) \<and>
   map (p_commentsCount \<circ> snd) (posts (deleteComment 2 0 hugeCountStore)) \<noteq>
     [Val (max 0 (9007199254740994 - 1))]"
  by (simp add: deleteComment_def hugeCountStore_def emptyStore_def deleteDoc_comments_def
      updateDoc_posts_def getDoc_def patched_def helloPostDoc_def num_or_def Let_def
      roundToDouble_exact roundToDouble_tie)

text \<open>
  Claim C10. When the payload is valid and its post does not exist, \<^verbatim>\<open>createComment\<close>
  still adds the comment and returns its identifier, and sends no other request: no
  counter is updated and no error is raised. When the post does not exist,
  \<^verbatim>\<open>deleteComment\<close> deletes the comment and leaves the posts alone.
\<close>

theorem orphan_comment:
  "(validateComment (Some (cd_content commentData)) = [] \<and>
    getDoc (posts s) (cd_postId commentData) = None \<longrightarrow>
      fst (createComment commentData s) = Inr (nextId s) \<and>
      comments (snd (createComment commentData s)) = comments s @
        [(nextId s,
          \<lparr>c_postId = Val (cd_postId commentData),
           c_userId = Val (cd_userId commentData),
           c_userName = Val (cd_userName commentData),
           c_userAvatar = (case cd_userAvatar commentData of None \<Rightarrow> Absent | Some a \<Rightarrow> Val a),
           c_content = Val (cd_content commentData),
           c_createdAt = Val (serverTime s),
           c_updatedAt = Val (serverTime s)\<rparr>)] \<and>
      posts (snd (createComment commentData s)) = posts s \<and>
      writes (snd (createComment commentData s)) = writes s @ [Added Comments (nextId s)]) \<and>
   (getDoc (posts s) postId = None \<longrightarrow>
      comments (deleteComment commentId postId s) = without commentId (comments s) \<and>
      getDoc (comments (deleteComment commentId postId s)) commentId = None \<and>
      posts (deleteComment commentId postId s) = posts s \<and>
      writes (deleteComment commentId postId s) = writes s @ [Deleted Comments commentId])"
  by (auto simp add: createComment_def addDoc_comments_def deleteComment_def
      deleteDoc_comments_def Let_def getDoc_without_same split: option.splits)

text \<open>
  An instance on the empty store.
\<close>

theorem orphan_comment_witness:
  "validateComment (Some (cd_content niceComment)) = [] \<and>
   getDoc (posts emptyStore) (cd_postId niceComment) = None \<and>
   fst (createComment niceComment emptyStore) = Inr 0 \<and>
   map fst (comments (snd (createComment niceComment emptyStore))) = [0] \<and>
   posts (snd (createComment niceComment emptyStore)) = [] \<and>
   writes (snd (createComment niceComment emptyStore)) = [Added Comments 0] \<and>
   getDoc (posts emptyStore) 0 = None \<and>
   posts (deleteComment 3 0 emptyStore) = [] \<and>
   writes (deleteComment 3 0 emptyStore) = [Deleted Comments 3]"
proof -
  have h1: "validateComment (Some (cd_content niceComment)) = []"
    by (simp add: niceComment_def validateComment_def js_def trim_def isWhiteSpace_def)
  have h2: "getDoc (posts emptyStore) (cd_postId niceComment) = None"
    by (simp add: emptyStore_def getDoc_def)
  have h3: "getDoc (posts emptyStore) 0 = None"
    by (simp add: emptyStore_def getDoc_def)
  from orphan_comment [of niceComment emptyStore 0 3] h1 h2 h3 show ?thesis
    by (simp add: emptyStore_def)
qed

text \<open>
  Claim C8. \<^verbatim>\<open>getComments\<close>, and every list that \<^verbatim>\<open>subscribeToComments\<close> hands to its
  callback, holds exactly the comments of the store whose \<^verbatim>\<open>postId\<close> is the given post:
  one record for each such document, with the document's identifier and fields, and the
  client's clock where a timestamp is missing. The list is in ascending order of creation
  time whatever the order in which the store returns the documents; the query asks the
  store for no order.
\<close>

theorem comments_sorted_client_side:
  "sorted (map comment_createdAt (getComments postId now s)) \<and>
   mset (getComments postId now s) =
     image_mset
       (\<lambda>doc. \<lparr>comment_id = fst doc,
          comment_postId = Val postId,
          comment_userId = c_userId (snd doc),
          comment_userName = c_userName (snd doc),
          comment_userAvatar = c_userAvatar (snd doc),
          comment_content = c_content (snd doc),
          comment_createdAt = (case c_createdAt (snd doc) of Val t \<Rightarrow> t | _ \<Rightarrow> now),
          comment_updatedAt = (case c_updatedAt (snd doc) of Val t \<Rightarrow> t | _ \<Rightarrow> now)\<rparr>)
       (filter_mset (\<lambda>doc. c_postId (snd doc) = Val postId) (mset (comments s))) \<and>
   subscribeToComments postId now s = getComments postId now s"
proof -
  have m: "map (toComment now) (filter (\<lambda>(i, d). c_postId d = Val postId) (comments s)) =
    map (\<lambda>doc. \<lparr>comment_id = fst doc,
          comment_postId = Val postId,
          comment_userId = c_userId (snd doc),
          comment_userName = c_userName (snd doc),
          comment_userAvatar = c_userAvatar (snd doc),
          comment_content = c_content (snd doc),
          comment_createdAt = (case c_createdAt (snd doc) of Val t \<Rightarrow> t | _ \<Rightarrow> now),
          comment_updatedAt = (case c_updatedAt (snd doc) of Val t \<Rightarrow> t | _ \<Rightarrow> now)\<rparr>)
      (filter (\<lambda>doc. c_postId (snd doc) = Val postId) (comments s))"
    unfolding case_prod_beta
    by (rule map_cong) (auto simp: toComment_def date_or_def Let_def)
  have s1: "sorted (map comment_createdAt (getComments postId now s))"
    by (simp add: getComments_def Let_def)
  have s2: "mset (getComments postId now s) =
      mset (map (toComment now) (filter (\<lambda>(i, d). c_postId d = Val postId) (comments s)))"
    by (simp add: getComments_def Let_def)
  have s3: "subscribeToComments postId now s = getComments postId now s"
    by (simp add: getComments_def subscribeToComments_def)
  from s2 have "mset (getComments postId now s) =
      mset (map (\<lambda>doc. \<lparr>comment_id = fst doc,
          comment_postId = Val postId,
          comment_userId = c_userId (snd doc),
          comment_userName = c_userName (snd doc),
          comment_userAvatar = c_userAvatar (snd doc),
          comment_content = c_content (snd doc),
          comment_createdAt = (case c_createdAt (snd doc) of Val t \<Rightarrow> t | _ \<Rightarrow> now),
          comment_updatedAt = (case c_updatedAt (snd doc) of Val t \<Rightarrow> t | _ \<Rightarrow> now)\<rparr>)
      (filter (\<lambda>doc. c_postId (snd doc) = Val postId) (comments s)))"
    by (simp only: m)
  with s1 s3 show ?thesis
    by (simp only: mset_map mset_filter)
qed

text \<open>
  An instance: three comments of the post, one without a timestamp yet and the others
  stored in descending order of time, and a comment of another post between them.
\<close>

theorem comments_sorted_client_side_witness:
  "sorted (map comment_createdAt (getComments 0 5000 busyStore)) \<and>
   map comment_id (getComments 0 5000 busyStore) = [4, 2, 1] \<and>
   map comment_postId (getComments 0 5000 busyStore) = [Val 0, Val 0, Val 0] \<and>
   map comment_content (getComments 0 5000 busyStore) =
     [Val (js ''First''), Val (js ''Nice!''), Val (js ''Just sent'')] \<and>
   map comment_createdAt (getComments 0 5000 busyStore) = [20, 30, 5000] \<and>
   subscribeToComments 0 5000 busyStore = getComments 0 5000 busyStore"
proof -
  have e: "map comment_id (getComments 0 5000 busyStore) = [4, 2, 1]"
    "map comment_postId (getComments 0 5000 busyStore) = [Val 0, Val 0, Val 0]"
    "map comment_content (getComments 0 5000 busyStore) =
       [Val (js ''First''), Val (js ''Nice!''), Val (js ''Just sent'')]"
    "map comment_createdAt (getComments 0 5000 busyStore) = [20, 30, 5000]"
    by (simp_all add: getComments_def busyStore_def emptyStore_def commentDoc_def toComment_def
        date_or_def Let_def)
  from comments_sorted_client_side [of 0 5000 busyStore] e show ?thesis
    by simp
qed

section \<open>Deleting a post\<close>

lemma fold_deleteDoc_comments:
  "fold (\<lambda>doc. deleteDoc_comments (fst doc)) ds s =
     s\<lparr>comments := filter (\<lambda>(j, d). j \<notin> fst ` set ds) (comments s),
       writes := writes s @ map (\<lambda>doc. Deleted Comments (fst doc)) ds\<rparr>"
proof (induction ds arbitrary: s)
  case Nil
  then show ?case by simp
next
  case (Cons a ds)
  have "filter (\<lambda>(j, d). j \<notin> fst ` set ds) (without (fst a) (comments s)) =
        filter (\<lambda>(j, d). j \<notin> fst ` set (a # ds)) (comments s)"
    by (auto simp: without_def intro!: filter_cong)
  with Cons show ?case
    by (simp add: deleteDoc_comments_def)
qed

lemma fold_deleteDoc_likes:
  "fold (\<lambda>doc. deleteDoc_likes (fst doc)) ds s =
     s\<lparr>likes := filter (\<lambda>(j, d). j \<notin> fst ` set ds) (likes s),
       writes := writes s @ map (\<lambda>doc. Deleted Likes (fst doc)) ds\<rparr>"
proof (induction ds arbitrary: s)
  case Nil
  then show ?case by simp
next
  case (Cons a ds)
  have "filter (\<lambda>(j, d). j \<notin> fst ` set ds) (without (fst a) (likes s)) =
        filter (\<lambda>(j, d). j \<notin> fst ` set (a # ds)) (likes s)"
    by (auto simp: without_def intro!: filter_cong)
  with Cons show ?case
    by (simp add: deleteDoc_likes_def)
qed

lemma in_filter_ids:
  "x \<in> set (filter (\<lambda>(j, d). j \<notin> S) c) \<Longrightarrow> x \<in> set c \<and> fst x \<notin> S"
  by (cases x) simp

lemma filter_out_matching:
  "filter P (filter (\<lambda>(j, d). j \<notin> fst ` set (filter P c)) c) = []"
proof -
  have "\<not> P x" if "x \<in> set (filter (\<lambda>(j, d). j \<notin> fst ` set (filter P c)) c)" for x
  proof
    assume "P x"
    from that have mem: "x \<in> set c" and q: "fst x \<notin> fst ` set (filter P c)"
      by (auto dest: in_filter_ids simp del: set_filter)
    from mem \<open>P x\<close> have "x \<in> set (filter P c)" by simp
    then have "fst x \<in> fst ` set (filter P c)" by (rule imageI)
    with q show False by contradiction
  qed
  then show ?thesis
    unfolding filter_empty_conv by blast
qed

lemma deletePost_state:
  "deletePost postId s =
     s\<lparr>comments := filter (\<lambda>(j, d). j \<notin> fst ` set
            (filter (\<lambda>(i, d). c_postId d = Val postId) (comments s))) (comments s),
       likes := filter (\<lambda>(j, d). j \<notin> fst ` set
            (filter (\<lambda>(i, d). l_postId d = Val postId) (likes s))) (likes s),
       posts := without postId (posts s),
       writes := writes s
         @ map (\<lambda>doc. Deleted Comments (fst doc))
             (filter (\<lambda>(i, d). c_postId d = Val postId) (comments s))
         @ map (\<lambda>doc. Deleted Likes (fst doc))
             (filter (\<lambda>(i, d). l_postId d = Val postId) (likes s))
         @ [Deleted Posts postId]\<rparr>"
  by (simp add: deletePost_def Let_def fold_deleteDoc_comments fold_deleteDoc_likes
      deleteDoc_posts_def del: set_filter filter_filter)

text \<open>
  Claim C6. The requests that \<^verbatim>\<open>deletePost\<close> sends are, in this order: a delete for every
  comment whose \<^verbatim>\<open>postId\<close> is the post, a delete for every like whose \<^verbatim>\<open>postId\<close> is the
  post, and the delete of the post document. Afterwards no such comment, no such like and
  no such post is left.
\<close>

theorem deletePost_cascade:
  "writes (deletePost postId s) =
     writes s
     @ map (\<lambda>doc. Deleted Comments (fst doc))
         (filter (\<lambda>(i, d). c_postId d = Val postId) (comments s))
     @ map (\<lambda>doc. Deleted Likes (fst doc))
         (filter (\<lambda>(i, d). l_postId d = Val postId) (likes s))
     @ [Deleted Posts postId] \<and>
   filter (\<lambda>(i, d). c_postId d = Val postId) (comments (deletePost postId s)) = [] \<and>
   filter (\<lambda>(i, d). l_postId d = Val postId) (likes (deletePost postId s)) = [] \<and>
   getDoc (posts (deletePost postId s)) postId = None"
proof -
  have w: "writes (deletePost postId s) =
     writes s
     @ map (\<lambda>doc. Deleted Comments (fst doc))
         (filter (\<lambda>(i, d). c_postId d = Val postId) (comments s))
     @ map (\<lambda>doc. Deleted Likes (fst doc))
         (filter (\<lambda>(i, d). l_postId d = Val postId) (likes s))
     @ [Deleted Posts postId]"
    by (subst deletePost_state) simp
  have "comments (deletePost postId s) = filter (\<lambda>(j, d). j \<notin> fst ` set
            (filter (\<lambda>(i, d). c_postId d = Val postId) (comments s))) (comments s)"
    by (subst deletePost_state) simp
  then have c: "filter (\<lambda>(i, d). c_postId d = Val postId) (comments (deletePost postId s)) = []"
    by (simp only: filter_out_matching)
  have "likes (deletePost postId s) = filter (\<lambda>(j, d). j \<notin> fst ` set
            (filter (\<lambda>(i, d). l_postId d = Val postId) (likes s))) (likes s)"
    by (subst deletePost_state) simp
  then have l: "filter (\<lambda>(i, d). l_postId d = Val postId) (likes (deletePost postId s)) = []"
    by (simp only: filter_out_matching)
  have "posts (deletePost postId s) = without postId (posts s)"
    by (subst deletePost_state) simp
  then have p: "getDoc (posts (deletePost postId s)) postId = None"
    by (simp only: getDoc_without_same)
  from w c l p show ?thesis by blast
qed

text \<open>
  An instance: a post with three comments and one like.
\<close>

theorem deletePost_cascade_witness:
  "writes (deletePost 0 busyStore) =
     [Deleted Comments 1, Deleted Comments 2, Deleted Comments 4, Deleted Likes 5,
      Deleted Posts 0] \<and>
   getDoc (posts (deletePost 0 busyStore)) 0 = None"
  using deletePost_cascade [of 0 busyStore]
  by (simp add: busyStore_def emptyStore_def commentDoc_def likeDocU_def)

section \<open>Optional fields\<close>

text \<open>
  Claim C7. \<^verbatim>\<open>createPost\<close>, \<^verbatim>\<open>createComment\<close>, \<^verbatim>\<open>createGroup\<close> and \<^verbatim>\<open>createEvent\<close> write
  an optional field exactly when the payload has it: a field that is undefined in the
  payload is absent from the document, and no optional field is written as null.
\<close>

theorem absent_optional_fields_omitted:
  "(validatePost (Some (pd_title postData)) (Some (pd_content postData)) = [] \<longrightarrow>
      (\<exists>d. posts (snd (createPost postData s)) = posts s @ [(nextId s, d)] \<and>
        p_userAvatar d = (case pd_userAvatar postData of None \<Rightarrow> Absent | Some a \<Rightarrow> Val a) \<and>
        p_imageData d = (case pd_imageData postData of None \<Rightarrow> Absent | Some i \<Rightarrow> Val i))) \<and>
   (validateComment (Some (cd_content commentData)) = [] \<longrightarrow>
      (\<exists>d. comments (snd (createComment commentData s)) = comments s @ [(nextId s, d)] \<and>
        c_userAvatar d =
          (case cd_userAvatar commentData of None \<Rightarrow> Absent | Some a \<Rightarrow> Val a))) \<and>
   (validateGroup (Some (gd_name groupData)) (Some (gd_description groupData)) = [] \<longrightarrow>
      (\<exists>d. groups (snd (createGroup groupData s)) = groups s @ [(nextId s, d)] \<and>
        g_imageData d = (case gd_imageData groupData of None \<Rightarrow> Absent | Some i \<Rightarrow> Val i))) \<and>
   (validateEvent (Some (ed_title eventData)) (Some (ed_description eventData))
        (Some (ed_startDate eventData)) (Some (ed_endDate eventData)) = [] \<longrightarrow>
      (\<exists>d. events (snd (createEvent eventData s)) = events s @ [(nextId s, d)] \<and>
        e_groupId d = (case ed_groupId eventData of None \<Rightarrow> Absent | Some g \<Rightarrow> Val g) \<and>
        e_location d = (case ed_location eventData of None \<Rightarrow> Absent | Some l \<Rightarrow> Val l) \<and>
        e_maxParticipants d =
          (case ed_maxParticipants eventData of None \<Rightarrow> Absent | Some m \<Rightarrow> Val m)))"
proof (intro conjI impI)
  assume "validatePost (Some (pd_title postData)) (Some (pd_content postData)) = []"
  then show "\<exists>d. posts (snd (createPost postData s)) = posts s @ [(nextId s, d)] \<and>
        p_userAvatar d = (case pd_userAvatar postData of None \<Rightarrow> Absent | Some a \<Rightarrow> Val a) \<and>
        p_imageData d = (case pd_imageData postData of None \<Rightarrow> Absent | Some i \<Rightarrow> Val i)"
    by (simp add: createPost_def addDoc_posts_def Let_def split: option.splits)
next
  assume "validateComment (Some (cd_content commentData)) = []"
  then show "\<exists>d. comments (snd (createComment commentData s)) = comments s @ [(nextId s, d)] \<and>
        c_userAvatar d =
          (case cd_userAvatar commentData of None \<Rightarrow> Absent | Some a \<Rightarrow> Val a)"
    by (simp add: createComment_def addDoc_comments_def updateDoc_posts_def Let_def
        split: option.splits)
next
  assume "validateGroup (Some (gd_name groupData)) (Some (gd_description groupData)) = []"
  then show "\<exists>d. groups (snd (createGroup groupData s)) = groups s @ [(nextId s, d)] \<and>
        g_imageData d = (case gd_imageData groupData of None \<Rightarrow> Absent | Some i \<Rightarrow> Val i)"
    by (simp add: createGroup_def addDoc_groups_def addDoc_groupMembers_def Let_def
        split: option.splits)
next
  assume "validateEvent (Some (ed_title eventData)) (Some (ed_description eventData))
        (Some (ed_startDate eventData)) (Some (ed_endDate eventData)) = []"
  then show "\<exists>d. events (snd (createEvent eventData s)) = events s @ [(nextId s, d)] \<and>
        e_groupId d = (case ed_groupId eventData of None \<Rightarrow> Absent | Some g \<Rightarrow> Val g) \<and>
        e_location d = (case ed_location eventData of None \<Rightarrow> Absent | Some l \<Rightarrow> Val l) \<and>
        e_maxParticipants d =
          (case ed_maxParticipants eventData of None \<Rightarrow> Absent | Some m \<Rightarrow> Val m)"
    by (simp add: createEvent_def addDoc_events_def addDoc_eventParticipants_def Let_def
        split: option.splits)
qed

text \<open>
  Instances: payloads without any optional field.
\<close>

theorem absent_optional_fields_omitted_witness:
  "validatePost (Some (pd_title helloPost)) (Some (pd_content helloPost)) = [] \<and>
   validateComment (Some (cd_content niceComment)) = [] \<and>
   validateGroup (Some (gd_name readersClub)) (Some (gd_description readersClub)) = [] \<and>
   validateEvent (Some (ed_title privateEvent)) (Some (ed_description privateEvent))
     (Some (ed_startDate privateEvent)) (Some (ed_endDate privateEvent)) = [] \<and>
   (\<exists>d. posts (snd (createPost helloPost emptyStore)) = [(0, d)] \<and>
      p_userAvatar d = Absent \<and> p_imageData d = Absent) \<and>
   (\<exists>d. comments (snd (createComment niceComment emptyStore)) = [(0, d)] \<and>
      c_userAvatar d = Absent) \<and>
   (\<exists>d. groups (snd (createGroup readersClub emptyStore)) = [(0, d)] \<and>
      g_imageData d = Absent) \<and>
   (\<exists>d. events (snd (createEvent privateEvent emptyStore)) = [(0, d)] \<and>
      e_groupId d = Absent \<and> e_location d = Absent \<and> e_maxParticipants d = Absent)"
proof -
  have h1: "validatePost (Some (pd_title helloPost)) (Some (pd_content helloPost)) = []"
    by (simp add: helloPost_def validatePost_def js_def trim_def isWhiteSpace_def)
  have h2: "validateComment (Some (cd_content niceComment)) = []"
    by (simp add: niceComment_def validateComment_def js_def trim_def isWhiteSpace_def)
  have h3: "validateGroup (Some (gd_name readersClub)) (Some (gd_description readersClub)) = []"
    by (simp add: readersClub_def validateGroup_def js_def trim_def isWhiteSpace_def)
  have h4: "validateEvent (Some (ed_title privateEvent)) (Some (ed_description privateEvent))
     (Some (ed_startDate privateEvent)) (Some (ed_endDate privateEvent)) = []"
    by (simp add: privateEvent_def validateEvent_def js_def trim_def isWhiteSpace_def)
  have o: "pd_userAvatar helloPost = None" "pd_imageData helloPost = None"
    "cd_userAvatar niceComment = None" "gd_imageData readersClub = None"
    "ed_groupId privateEvent = None" "ed_location privateEvent = None"
    "ed_maxParticipants privateEvent = None"
    by (simp_all add: helloPost_def niceComment_def readersClub_def privateEvent_def)
  have e: "posts emptyStore = []" "comments emptyStore = []" "groups emptyStore = []"
    "events emptyStore = []" "nextId emptyStore = 0"
    by (simp_all add: emptyStore_def)
  from absent_optional_fields_omitted
      [of helloPost emptyStore niceComment readersClub privateEvent] h1 h2 h3 h4
  show ?thesis
    by (simp add: o e)
qed

end
